theory Spec2Isabelle
  imports Main "HOL-Library.Sublist" "HOL-Library.Word"
begin

section \<open>Property descriptors\<close>

text \<open>
  The property-definition file declares record classes whose fields are code templates
  (strings over placeholders such as \<open>$_storage\<close>). A class with template arguments is a
  function from its arguments to a record; \<open>let\<close> fixes a field; \<open>#\<close> is string
  concatenation; \<open>!empty\<close>, \<open>!eq\<close>, \<open>!if\<close>, \<open>!cond\<close> and \<open>!subst\<close> are the
  language's operators on strings.
\<close>

text \<open>
  Modelled from the spec: predicates, "boolean expression templates" over \<open>$_self\<close>.
  Their classes (\<open>CPred\<close>, \<open>And\<close>, \<open>Or\<close>, \<open>Concat\<close>, \<open>SubstLeaves\<close>) and the record
  \<open>TruePred\<close> are declared in the included constraint definitions, which are not among
  the sources; the constructors below are the ones the property file applies, with the
  arguments it gives them. The property file only builds such terms and compares a
  predicate with the record \<open>TruePred\<close>: that is record identity, so \<open>TruePred\<close> is a
  constructor of its own and differs from every \<open>CPred\<close>.
\<close>

datatype Pred =
    TruePred
  | CPred string
  | And "Pred list"
  | Or "Pred list"
  | Concat string Pred string
  | SubstLeaves string string Pred

text \<open>
  A property record. \<open>baseProperty = ?\<close> (unset) is \<open>None\<close>. The empty string of
  \<open>defaultValue\<close>, \<open>storageTypeValueOverride\<close>, \<open>hashProperty\<close> and \<open>optionalParser\<close>
  means "none".
\<close>

datatype Property = MkProperty
  (summary: string)
  (description: string)
  (storageType: string)
  (interfaceType: string)
  (predicate: Pred)
  (convertFromStorage: string)
  (assignToStorage: string)
  (convertToAttribute: string)
  (convertFromAttribute: string)
  (hashProperty: string)
  (parser: string)
  (optionalParser: string)
  (printer: string)
  (writeToMlirBytecode: string)
  (readFromMlirBytecode: string)
  (baseProperty: "Property option")
  (defaultValue: string)
  (storageTypeValueOverride: string)

text \<open>
  \<open>!subst(target, repl, value)\<close>: every occurrence of \<open>target\<close> in \<open>value\<close>, found from
  left to right without overlap, is replaced by \<open>repl\<close>; the replacement text is not
  scanned again. (The property file never substitutes for the empty string; the model
  leaves \<open>value\<close> as it is there.)
\<close>

function subst :: "string \<Rightarrow> string \<Rightarrow> string \<Rightarrow> string" where
  "subst target repl [] = []"
| "subst target repl (c # cs) =
     (if target \<noteq> [] \<and> prefix target (c # cs)
      then repl @ subst target repl (drop (length target - 1) cs)
      else c # subst target repl cs)"
  by pat_completeness auto
termination
  by (relation "measure (\<lambda>(target, repl, s). length s)") auto

subsection \<open>The base class\<close>

text \<open>
  \<open>class Property<storageTypeParam = "", desc = "", interfaceTypeParam = storageTypeParam>
  : PropConstraint<TruePred, desc, interfaceTypeParam>\<close>: the summary is \<open>desc\<close>, the
  predicate defaults to the true predicate and the interface type is a field of the
  constraint.
\<close>

definition Property_base :: "string \<Rightarrow> string \<Rightarrow> string \<Rightarrow> Property" where
  \<open>Property_base storageTypeParam desc interfaceTypeParam = MkProperty
     \<comment> \<open>summary\<close> desc
     \<comment> \<open>description\<close> ''''
     \<comment> \<open>storageType\<close> storageTypeParam
     \<comment> \<open>interfaceType\<close> interfaceTypeParam
     \<comment> \<open>predicate\<close> TruePred
     \<comment> \<open>convertFromStorage\<close> ''$_storage''
     \<comment> \<open>assignToStorage\<close> ''$_storage = $_value''
     \<comment> \<open>convertToAttribute\<close>
     (''\<newline>'' @
     ''    return convertToAttribute($_ctxt, $_storage);\<newline>'' @
     ''  '')
     \<comment> \<open>convertFromAttribute\<close>
     (''\<newline>'' @
     ''    return convertFromAttribute($_storage, $_attr, $_diag);\<newline>'' @
     ''  '')
     \<comment> \<open>hashProperty\<close> ''''
     \<comment> \<open>parser\<close>
     (''\<newline>'' @
     ''    auto value = ::mlir::FieldParser<'' @ storageTypeParam @
     ''>::parse($_parser);\<newline>'' @
     ''    if (::mlir::failed(value))\<newline>'' @
     ''      return ::mlir::failure();\<newline>'' @
     ''    $_storage = std::move(*value);\<newline>'' @
     ''  '')
     \<comment> \<open>optionalParser\<close> ''''
     \<comment> \<open>printer\<close> ''$_printer << $_storage''
     \<comment> \<open>writeToMlirBytecode\<close>
     (''\<newline>'' @
     ''    writeToMlirBytecode($_writer, $_storage);\<newline>'' @
     ''  '')
     \<comment> \<open>readFromMlirBytecode\<close>
     (''\<newline>'' @
     ''    if (::mlir::failed(readFromMlirBytecode($_reader, $_storage)))\<newline>'' @
     ''      return ::mlir::failure();\<newline>'' @
     ''  '')
     \<comment> \<open>baseProperty\<close> None
     \<comment> \<open>defaultValue\<close> ''''
     \<comment> \<open>storageTypeValueOverride\<close> ''''\<close>

subsection \<open>Primitive property kinds\<close>

definition IntProp :: "string \<Rightarrow> string \<Rightarrow> Property" where
  \<open>IntProp storageTypeParam desc =
    (let base = Property_base storageTypeParam desc storageTypeParam in MkProperty
     \<comment> \<open>summary\<close> (if desc = [] then storageTypeParam else desc)
     \<comment> \<open>description\<close> (description base)
     \<comment> \<open>storageType\<close> (storageType base)
     \<comment> \<open>interfaceType\<close> (interfaceType base)
     \<comment> \<open>predicate\<close> (predicate base)
     \<comment> \<open>convertFromStorage\<close> (convertFromStorage base)
     \<comment> \<open>assignToStorage\<close> (assignToStorage base)
     \<comment> \<open>convertToAttribute\<close> (convertToAttribute base)
     \<comment> \<open>convertFromAttribute\<close> (convertFromAttribute base)
     \<comment> \<open>hashProperty\<close> (hashProperty base)
     \<comment> \<open>parser\<close> (parser base)
     \<comment> \<open>optionalParser\<close>
     (''\<newline>'' @
     ''    return $_parser.parseOptionalInteger($_storage);\<newline>'' @
     ''  '')
     \<comment> \<open>printer\<close> ''$_printer.printInteger($_storage)''
     \<comment> \<open>writeToMlirBytecode\<close>
     (''\<newline>'' @
     ''    $_writer.writeVarInt($_storage);\<newline>'' @
     ''  '')
     \<comment> \<open>readFromMlirBytecode\<close>
     (''\<newline>'' @
     ''    uint64_t val;\<newline>'' @
     ''    if (failed($_reader.readVarInt(val)))\<newline>'' @
     ''      return ::mlir::failure();\<newline>'' @
     ''    $_storage = val;\<newline>'' @
     ''  '')
     \<comment> \<open>baseProperty\<close> (baseProperty base)
     \<comment> \<open>defaultValue\<close> (defaultValue base)
     \<comment> \<open>storageTypeValueOverride\<close> (storageTypeValueOverride base))\<close>

definition I32Prop :: Property where
  "I32Prop = IntProp ''int32_t'' ''''"

definition I64Prop :: Property where
  "I64Prop = IntProp ''int64_t'' ''''"

definition StringProp :: Property where
  \<open>StringProp =
    (let base = Property_base ''std::string'' ''string'' ''::llvm::StringRef'' in MkProperty
     \<comment> \<open>summary\<close> (summary base)
     \<comment> \<open>description\<close> (description base)
     \<comment> \<open>storageType\<close> (storageType base)
     \<comment> \<open>interfaceType\<close> (interfaceType base)
     \<comment> \<open>predicate\<close> (predicate base)
     \<comment> \<open>convertFromStorage\<close> ''::llvm::StringRef{$_storage}''
     \<comment> \<open>assignToStorage\<close> ''$_storage = $_value.str()''
     \<comment> \<open>convertToAttribute\<close> (convertToAttribute base)
     \<comment> \<open>convertFromAttribute\<close> (convertFromAttribute base)
     \<comment> \<open>hashProperty\<close> (hashProperty base)
     \<comment> \<open>parser\<close> (parser base)
     \<comment> \<open>optionalParser\<close>
     (''\<newline>'' @
     ''    if (::mlir::failed($_parser.parseOptionalString(&$_storage)))\<newline>'' @
     ''      return std::nullopt;\<newline>'' @
     ''  '')
     \<comment> \<open>printer\<close> ''$_printer.printString($_storage)''
     \<comment> \<open>writeToMlirBytecode\<close>
     (''\<newline>'' @
     ''    $_writer.writeOwnedString($_storage);\<newline>'' @
     ''  '')
     \<comment> \<open>readFromMlirBytecode\<close>
     (''\<newline>'' @
     ''    StringRef val;\<newline>'' @
     ''    if (::mlir::failed($_reader.readString(val)))\<newline>'' @
     ''      return ::mlir::failure();\<newline>'' @
     ''    $_storage = val.str();\<newline>'' @
     ''  '')
     \<comment> \<open>baseProperty\<close> (baseProperty base)
     \<comment> \<open>defaultValue\<close> (defaultValue base)
     \<comment> \<open>storageTypeValueOverride\<close> (storageTypeValueOverride base))\<close>

definition BoolProp :: Property where
  \<open>BoolProp =
    (let base = IntProp ''bool'' ''boolean'' in MkProperty
     \<comment> \<open>summary\<close> (summary base)
     \<comment> \<open>description\<close> (description base)
     \<comment> \<open>storageType\<close> (storageType base)
     \<comment> \<open>interfaceType\<close> (interfaceType base)
     \<comment> \<open>predicate\<close> (predicate base)
     \<comment> \<open>convertFromStorage\<close> (convertFromStorage base)
     \<comment> \<open>assignToStorage\<close> (assignToStorage base)
     \<comment> \<open>convertToAttribute\<close> (convertToAttribute base)
     \<comment> \<open>convertFromAttribute\<close> (convertFromAttribute base)
     \<comment> \<open>hashProperty\<close> (hashProperty base)
     \<comment> \<open>parser\<close> (parser base)
     \<comment> \<open>optionalParser\<close> (optionalParser base)
     \<comment> \<open>printer\<close>
     ('' $_printer << ($_storage ? "true" : "false") '')
     \<comment> \<open>writeToMlirBytecode\<close>
     (''\<newline>'' @
     ''    $_writer.writeOwnedBool($_storage);\<newline>'' @
     ''  '')
     \<comment> \<open>readFromMlirBytecode\<close>
     (''\<newline>'' @
     ''    return $_reader.readBool($_storage);\<newline>'' @
     ''  '')
     \<comment> \<open>baseProperty\<close> (baseProperty base)
     \<comment> \<open>defaultValue\<close> (defaultValue base)
     \<comment> \<open>storageTypeValueOverride\<close> (storageTypeValueOverride base))\<close>

definition UnitProp :: Property where
  \<open>UnitProp =
    (let base = Property_base ''bool'' ''unit property'' ''bool'' in MkProperty
     \<comment> \<open>summary\<close> ''unit property''
     \<comment> \<open>description\<close>
     (''\<newline>'' @
     ''    A property whose presence or abscence is used as a flag.\<newline>'' @
     ''\<newline>'' @
     ''    This is stored as a boolean that defaults to false, and is named UnitProperty\<newline>'' @
     ''    by analogy with UnitAttr, which has the more comprehensive rationale and\<newline>'' @
     ''    explains the less typical syntax.\<newline>'' @
     ''\<newline>'' @
     ''    Note that this attribute does have a syntax for the false case to allow for its\<newline>'' @
     ''    use in contexts where default values shouldn'' @ [CHR 0x27] @ ''t be elided.\<newline>'' @
     ''  '')
     \<comment> \<open>storageType\<close> (storageType base)
     \<comment> \<open>interfaceType\<close> (interfaceType base)
     \<comment> \<open>predicate\<close> (predicate base)
     \<comment> \<open>convertFromStorage\<close> (convertFromStorage base)
     \<comment> \<open>assignToStorage\<close> (assignToStorage base)
     \<comment> \<open>convertToAttribute\<close>
     (''\<newline>'' @
     ''    if ($_storage)\<newline>'' @
     ''      return ::mlir::UnitAttr::get($_ctxt);\<newline>'' @
     ''    else\<newline>'' @
     ''      return ::mlir::BoolAttr::get($_ctxt, false);\<newline>'' @
     ''  '')
     \<comment> \<open>convertFromAttribute\<close>
     (''\<newline>'' @
     ''    if (::llvm::isa<::mlir::UnitAttr>($_attr)) {\<newline>'' @
     ''      $_storage = true;\<newline>'' @
     ''      return ::mlir::success();\<newline>'' @
     ''    }\<newline>'' @
     ''    if (auto boolAttr = ::llvm::dyn_cast<::mlir::BoolAttr>($_attr)) {\<newline>'' @
     ''      $_storage = boolAttr.getValue();\<newline>'' @
     ''      return ::mlir::success();\<newline>'' @
     ''    }\<newline>'' @
     ''    return ::mlir::failure();\<newline>'' @
     ''  '')
     \<comment> \<open>hashProperty\<close> (hashProperty base)
     \<comment> \<open>parser\<close>
     (''\<newline>'' @
     ''    ::llvm::StringRef keyword;\<newline>'' @
     ''    if (::mlir::failed($_parser.parseOptionalKeyword(&keyword,\<newline>'' @
     ''        {"unit", "unit_absent"})))\<newline>'' @
     ''      return $_parser.emitError($_parser.getCurrentLocation(),\<newline>'' @
     ''        "expected '' @ [CHR 0x27] @ ''unit'' @ [CHR 0x27] @ '' or '' @ [CHR 0x27] @ ''unit_absent'' @ [CHR 0x27] @ ''");\<newline>'' @
     ''    $_storage = (keyword == "unit");\<newline>'' @
     ''  '')
     \<comment> \<open>optionalParser\<close>
     (''\<newline>'' @
     ''    ::llvm::StringRef keyword;\<newline>'' @
     ''    if (::mlir::failed($_parser.parseOptionalKeyword(&keyword,\<newline>'' @
     ''        {"unit", "unit_absent"})))\<newline>'' @
     ''      return std::nullopt;\<newline>'' @
     ''    $_storage = (keyword == "unit");\<newline>'' @
     ''  '')
     \<comment> \<open>printer\<close>
     (''\<newline>'' @
     ''    $_printer << ($_storage ? "unit" : "unit_absent")\<newline>'' @
     ''  '')
     \<comment> \<open>writeToMlirBytecode\<close>
     (''\<newline>'' @
     ''    $_writer.writeOwnedBool($_storage);\<newline>'' @
     ''  '')
     \<comment> \<open>readFromMlirBytecode\<close>
     (''\<newline>'' @
     ''    if (::mlir::failed($_reader.readBool($_storage)))\<newline>'' @
     ''      return ::mlir::failure();\<newline>'' @
     ''  '')
     \<comment> \<open>baseProperty\<close> (baseProperty base)
     \<comment> \<open>defaultValue\<close> ''false''
     \<comment> \<open>storageTypeValueOverride\<close> (storageTypeValueOverride base))\<close>

subsection \<open>Property field overwrites\<close>

definition DefaultValuedProp :: "Property \<Rightarrow> string \<Rightarrow> string \<Rightarrow> Property" where
  \<open>DefaultValuedProp p default' storageDefault = MkProperty
     \<comment> \<open>summary\<close> (summary p)
     \<comment> \<open>description\<close> (description p)
     \<comment> \<open>storageType\<close> (storageType p)
     \<comment> \<open>interfaceType\<close> (interfaceType p)
     \<comment> \<open>predicate\<close> (predicate p)
     \<comment> \<open>convertFromStorage\<close> (convertFromStorage p)
     \<comment> \<open>assignToStorage\<close> (assignToStorage p)
     \<comment> \<open>convertToAttribute\<close> (convertToAttribute p)
     \<comment> \<open>convertFromAttribute\<close> (convertFromAttribute p)
     \<comment> \<open>hashProperty\<close> (hashProperty p)
     \<comment> \<open>parser\<close> (parser p)
     \<comment> \<open>optionalParser\<close> (optionalParser p)
     \<comment> \<open>printer\<close> (printer p)
     \<comment> \<open>writeToMlirBytecode\<close> (writeToMlirBytecode p)
     \<comment> \<open>readFromMlirBytecode\<close> (readFromMlirBytecode p)
     \<comment> \<open>baseProperty\<close> (Some p)
     \<comment> \<open>defaultValue\<close> default'
     \<comment> \<open>storageTypeValueOverride\<close> storageDefault\<close>

definition ConfinedProp :: "Property \<Rightarrow> Pred \<Rightarrow> string \<Rightarrow> Property" where
  \<open>ConfinedProp p pred newSummary = MkProperty
     \<comment> \<open>summary\<close> (if newSummary = [] then summary p else newSummary)
     \<comment> \<open>description\<close> (description p)
     \<comment> \<open>storageType\<close> (storageType p)
     \<comment> \<open>interfaceType\<close> (interfaceType p)
     \<comment> \<open>predicate\<close> (if predicate p \<noteq> TruePred then And [predicate p, pred] else pred)
     \<comment> \<open>convertFromStorage\<close> (convertFromStorage p)
     \<comment> \<open>assignToStorage\<close> (assignToStorage p)
     \<comment> \<open>convertToAttribute\<close> (convertToAttribute p)
     \<comment> \<open>convertFromAttribute\<close> (convertFromAttribute p)
     \<comment> \<open>hashProperty\<close> (hashProperty p)
     \<comment> \<open>parser\<close> (parser p)
     \<comment> \<open>optionalParser\<close> (optionalParser p)
     \<comment> \<open>printer\<close> (printer p)
     \<comment> \<open>writeToMlirBytecode\<close> (writeToMlirBytecode p)
     \<comment> \<open>readFromMlirBytecode\<close> (readFromMlirBytecode p)
     \<comment> \<open>baseProperty\<close> (Some p)
     \<comment> \<open>defaultValue\<close> (defaultValue p)
     \<comment> \<open>storageTypeValueOverride\<close> (storageTypeValueOverride p)\<close>

subsection \<open>Primitive property combinators\<close>

text \<open>
  \<open>_makePropStorage<prop, name>.ret\<close> (an identifier cannot start with an underscore
  here): the declaration of a variable \<open>name\<close> of \<open>prop\<close>'s storage type, with the
  initialiser chosen by \<open>!cond\<close>, first true condition first.
\<close>

definition makePropStorage :: "Property \<Rightarrow> string \<Rightarrow> string" where
  \<open>makePropStorage prop name =
     storageType prop @ '' '' @ name
       @ (if \<not> (storageTypeValueOverride prop = []) then '' = '' @ storageTypeValueOverride prop
          else if \<not> (defaultValue prop = []) then '' = '' @ defaultValue prop
          else '''') @ '';''\<close>

text \<open>\<open>_makeStorageWrapperPred<wrappedProp>.ret\<close>.\<close>

definition makeStorageWrapperPred :: "Property \<Rightarrow> Pred" where
  \<open>makeStorageWrapperPred wrappedProp =
     Concat
       (''[]('' @ ''const '' @ storageType wrappedProp
          @ ''& baseStore) -> bool { return []('' 
          @ interfaceType wrappedProp @ '' baseIface) -> bool { return ('')
       (SubstLeaves ''$_self'' ''baseIface'' (predicate wrappedProp))
       (''); }('' @ subst ''$_storage'' ''baseStore'' (convertFromStorage wrappedProp)
          @ ''); }'')\<close>

definition theParserBegin :: "Property \<Rightarrow> string" where
  \<open>theParserBegin elem =
     ''\<newline>'' @
     ''    auto& storage = $_storage;\<newline>'' @
     ''    auto parseElemFn = [&]() -> ::mlir::ParseResult {\<newline>'' @
     ''      '' @ makePropStorage elem ''elemVal'' @
     ''\<newline>'' @
     ''      auto elemParse = [&]('' @ storageType elem @
     ''& propStorage) -> ::mlir::ParseResult {\<newline>'' @
     ''        '' @ subst ''$_storage'' ''propStorage'' (parser elem) @
     ''\<newline>'' @
     ''        return ::mlir::success();\<newline>'' @
     ''       }(elemVal);\<newline>'' @
     ''      if (::mlir::failed(elemParse))\<newline>'' @
     ''        return ::mlir::failure();\<newline>'' @
     ''      storage.push_back(std::move(elemVal));\<newline>'' @
     ''      return ::mlir::success();\<newline>'' @
     ''    };\<newline>'' @
     ''    ''\<close>

definition ArrayProp :: "Property \<Rightarrow> string \<Rightarrow> Property" where
  \<open>ArrayProp elem newSummary = MkProperty
     \<comment> \<open>summary\<close> (if newSummary = [] then ''array of '' @ summary elem else newSummary)
     \<comment> \<open>description\<close> ''''
     \<comment> \<open>storageType\<close> (''::llvm::SmallVector<'' @ storageType elem @ ''>'')
     \<comment> \<open>interfaceType\<close> (''::llvm::ArrayRef<'' @ storageType elem @ ''>'')
     \<comment> \<open>predicate\<close>
     (if predicate elem = TruePred then TruePred
      else Concat ''::llvm::all_of($_self, '' (makeStorageWrapperPred elem) '')'')
     \<comment> \<open>convertFromStorage\<close> (''::llvm::ArrayRef<'' @ storageType elem @ ''>{$_storage}'')
     \<comment> \<open>assignToStorage\<close> ''$_storage.assign($_value.begin(), $_value.end())''
     \<comment> \<open>convertToAttribute\<close>
     (''\<newline>'' @
     ''    SmallVector<Attribute> elems;\<newline>'' @
     ''    for (const auto& elemVal : $_storage) {\<newline>'' @
     ''      auto elemAttr = [&](const '' @ storageType elem @
     ''& propStorage) -> ::mlir::Attribute {\<newline>'' @
     ''        '' @ subst ''$_storage'' ''propStorage'' (convertToAttribute elem) @
     ''\<newline>'' @
     ''      }(elemVal);\<newline>'' @
     ''      elems.push_back(elemAttr);\<newline>'' @
     ''    }\<newline>'' @
     ''    return ::mlir::ArrayAttr::get($_ctxt, elems);\<newline>'' @
     ''  '')
     \<comment> \<open>convertFromAttribute\<close>
     (''\<newline>'' @
     ''    auto arrayAttr = ::llvm::dyn_cast_if_present<::mlir::ArrayAttr>($_attr);\<newline>'' @
     ''    if (!arrayAttr)\<newline>'' @
     ''      return $_diag() << "expected array attribute";\<newline>'' @
     ''    for (::mlir::Attribute elemAttr : arrayAttr) {\<newline>'' @
     ''      '' @ makePropStorage elem ''elemVal'' @
     ''\<newline>'' @
     ''      auto elemRes = [&](Attribute propAttr, '' @ storageType elem @
     ''& propStorage) -> ::mlir::LogicalResult {\<newline>'' @
     ''        '' @ subst ''$_attr'' ''propAttr''
          (subst ''$_storage'' ''propStorage'' (convertFromAttribute elem)) @
     ''\<newline>'' @
     ''      }(elemAttr, elemVal);\<newline>'' @
     ''      if (::mlir::failed(elemRes))\<newline>'' @
     ''        return ::mlir::failure();\<newline>'' @
     ''      $_storage.push_back(std::move(elemVal));\<newline>'' @
     ''    }\<newline>'' @
     ''    return ::mlir::success();\<newline>'' @
     ''  '')
     \<comment> \<open>hashProperty\<close>
     (if hashProperty elem = []
      then ''hash_value(::llvm::ArrayRef<'' @ storageType elem @ ''>{$_storage})''
      else
     ''[&]() -> ::llvm::hash_code {\<newline>'' @
     ''        auto getElemHash = [](const auto& propStorage) -> ::llvm::hash_code {\<newline>'' @
     ''          return '' @ subst ''$_storage'' ''propStorage'' (hashProperty elem) @
     '';\<newline>'' @
     ''        };\<newline>'' @
     ''        auto mapped = ::llvm::map_range($_storage, getElemHash);\<newline>'' @
     ''        return ::llvm::hash_combine_range(mapped);\<newline>'' @
     ''      }()\<newline>'' @
     ''    '')
     \<comment> \<open>parser\<close>
     (theParserBegin elem @
     ''\<newline>'' @
     ''    return $_parser.parseCommaSeparatedList(\<newline>'' @
     ''      ::mlir::OpAsmParser::Delimiter::Square, parseElemFn);\<newline>'' @
     ''  '')
     \<comment> \<open>optionalParser\<close>
     (theParserBegin elem @
     ''\<newline>'' @
     ''    auto oldLoc = $_parser.getCurrentLocation();\<newline>'' @
     ''    auto parseResult = $_parser.parseCommaSeparatedList(\<newline>'' @
     ''      ::mlir::OpAsmParser::Delimiter::OptionalSquare, parseElemFn);\<newline>'' @
     ''    if (::mlir::failed(parseResult))\<newline>'' @
     ''      return ::mlir::failure();\<newline>'' @
     ''    auto newLoc = $_parser.getCurrentLocation();\<newline>'' @
     ''    if (oldLoc == newLoc)\<newline>'' @
     ''      return std::nullopt;\<newline>'' @
     ''    return ::mlir::success();\<newline>'' @
     ''  '')
     \<comment> \<open>printer\<close>
     ('' [&](){\<newline>'' @
     ''    $_printer << "[";\<newline>'' @
     ''    auto elemPrinter = [&](const '' @ storageType elem @
     ''& elemVal) {\<newline>'' @
     ''      '' @ subst ''$_storage'' ''elemVal'' (printer elem) @
     '';\<newline>'' @
     ''    };\<newline>'' @
     ''    ::llvm::interleaveComma($_storage, $_printer, elemPrinter);\<newline>'' @
     ''    $_printer << "]";\<newline>'' @
     ''  }()'')
     \<comment> \<open>writeToMlirBytecode\<close>
     (''\<newline>'' @
     ''    $_writer.writeVarInt($_storage.size());\<newline>'' @
     ''    for (const auto& elemVal : $_storage) {\<newline>'' @
     ''      [&]() {\<newline>'' @
     ''        '' @ subst ''$_storage'' ''elemVal'' (writeToMlirBytecode elem) @
     '';\<newline>'' @
     ''      }();\<newline>'' @
     ''    }\<newline>'' @
     ''  '')
     \<comment> \<open>readFromMlirBytecode\<close>
     (''\<newline>'' @
     ''    uint64_t length;\<newline>'' @
     ''    if (::mlir::failed($_reader.readVarInt(length)))\<newline>'' @
     ''      return ::mlir::failure();\<newline>'' @
     ''    $_storage.reserve(length);\<newline>'' @
     ''    for (uint64_t i = 0; i < length; ++i) {\<newline>'' @
     ''      '' @ makePropStorage elem ''elemVal'' @
     ''\<newline>'' @
     ''      auto elemRead = [&]('' @ storageType elem @
     ''& propStorage) -> ::mlir::LogicalResult {\<newline>'' @
     ''        '' @ subst ''$_storage'' ''propStorage'' (readFromMlirBytecode elem) @
     '';\<newline>'' @
     ''        return ::mlir::success();\<newline>'' @
     ''      }(elemVal);\<newline>'' @
     ''      if (::mlir::failed(elemRead))\<newline>'' @
     ''        return ::mlir::failure();\<newline>'' @
     ''      $_storage.push_back(std::move(elemVal));\<newline>'' @
     ''    }\<newline>'' @
     ''  '')
     \<comment> \<open>baseProperty\<close> None
     \<comment> \<open>defaultValue\<close> ''''
     \<comment> \<open>storageTypeValueOverride\<close> ''''\<close>

text \<open>The local variables (\<open>defvar\<close>) of \<open>OptionalProp<p, canDelegateParsing = 1>\<close>.\<close>

definition hasTrivialStorage :: "Property \<Rightarrow> bool" where
  "hasTrivialStorage p =
     (convertFromStorage p = ''$_storage'' \<and>
      assignToStorage p = ''$_storage = $_value'' \<and>
      storageType p = interfaceType p)"

definition delegatesParsing :: "Property \<Rightarrow> bool \<Rightarrow> bool" where
  "delegatesParsing p canDelegateParsing =
     (defaultValue p = [] \<and> \<not> (optionalParser p = []) \<and> canDelegateParsing)"

definition delegatedParserBegin :: "Property \<Rightarrow> string" where
  \<open>delegatedParserBegin p =
     ''\<newline>'' @
     ''    if (::mlir::succeeded($_parser.parseOptionalKeyword("none"))) {\<newline>'' @
     ''      $_storage = std::nullopt;\<newline>'' @
     ''      return ::mlir::success();\<newline>'' @
     ''    }\<newline>'' @
     ''    '' @ makePropStorage p ''presentVal'' @
     ''\<newline>'' @
     ''    auto delegParseResult = [&]('' @ storageType p @
     ''& propStorage) -> ::mlir::OptionalParseResult {\<newline>'' @
     ''    '' @ subst ''$_storage'' ''propStorage'' (optionalParser p) @
     ''\<newline>'' @
     ''        return ::mlir::success();\<newline>'' @
     ''    }(presentVal);\<newline>'' @
     ''    if (!delegParseResult.has_value()) {\<newline>'' @
     ''  ''\<close>

definition delegatedParserEnd :: string where
  \<open>delegatedParserEnd =
     ''\<newline>'' @
     ''    }\<newline>'' @
     ''    if (delegParseResult.has_value() && ::mlir::failed(*delegParseResult))\<newline>'' @
     ''      return ::mlir::failure();\<newline>'' @
     ''    $_storage = std::move(presentVal);\<newline>'' @
     ''    return ::mlir::success();\<newline>'' @
     ''  ''\<close>

definition delegatedParser :: "Property \<Rightarrow> string" where
  \<open>delegatedParser p = delegatedParserBegin p @
     ''\<newline>'' @
     ''    return ::mlir::failure();\<newline>'' @
     ''  '' @ delegatedParserEnd\<close>

definition delegatedOptionalParser :: "Property \<Rightarrow> string" where
  \<open>delegatedOptionalParser p = delegatedParserBegin p @
     ''\<newline>'' @
     ''      return std::nullopt;\<newline>'' @
     ''  '' @ delegatedParserEnd\<close>

definition generalParserBegin :: string where
  \<open>generalParserBegin =
     ''\<newline>'' @
     ''    ::llvm::StringRef keyword;\<newline>'' @
     ''    if (::mlir::failed($_parser.parseOptionalKeyword(&keyword, {"none", "some"}))) {\<newline>'' @
     ''  ''\<close>

definition generalParserEnd :: "Property \<Rightarrow> string" where
  \<open>generalParserEnd p =
     ''\<newline>'' @
     ''    }\<newline>'' @
     ''    if (keyword == "none") {\<newline>'' @
     ''      $_storage = std::nullopt;\<newline>'' @
     ''      return ::mlir::success();\<newline>'' @
     ''    }\<newline>'' @
     ''    if (::mlir::failed($_parser.parseLess()))\<newline>'' @
     ''      return ::mlir::failure();\<newline>'' @
     ''    '' @ makePropStorage p ''presentVal'' @
     ''\<newline>'' @
     ''    auto presentParse = [&]('' @ storageType p @
     ''& propStorage) -> ::mlir::ParseResult {\<newline>'' @
     ''      '' @ subst ''$_storage'' ''propStorage'' (parser p) @
     ''\<newline>'' @
     ''      return ::mlir::success();\<newline>'' @
     ''    }(presentVal);\<newline>'' @
     ''    if (presentParse || $_parser.parseGreater())\<newline>'' @
     ''      return ::mlir::failure();\<newline>'' @
     ''    $_storage = std::move(presentVal);\<newline>'' @
     ''  ''\<close>

definition generalParser :: "Property \<Rightarrow> string" where
  \<open>generalParser p = generalParserBegin @
     ''\<newline>'' @
     ''    return $_parser.emitError($_parser.getCurrentLocation(), "expected '' @ [CHR 0x27] @ ''none'' @ [CHR 0x27] @ '' or '' @ [CHR 0x27] @ ''some<prop>'' @ [CHR 0x27] @ ''");\<newline>'' @
     ''  '' @ generalParserEnd p\<close>

definition generalOptionalParser :: "Property \<Rightarrow> string" where
  \<open>generalOptionalParser p = generalParserBegin @
     ''\<newline>'' @
     ''    return std::nullopt;\<newline>'' @
     ''  '' @ generalParserEnd p\<close>

definition delegatedPrinter :: "Property \<Rightarrow> string" where
  \<open>delegatedPrinter p =
     ''\<newline>'' @
     ''    [&]() {\<newline>'' @
     ''      if (!$_storage.has_value()) {\<newline>'' @
     ''        $_printer << "none";\<newline>'' @
     ''        return;\<newline>'' @
     ''      }\<newline>'' @
     ''      '' @ subst ''$_storage'' ''(*($_storage))'' (printer p) @
     '';\<newline>'' @
     ''    }()''\<close>

definition generalPrinter :: "Property \<Rightarrow> string" where
  \<open>generalPrinter p =
     ''\<newline>'' @
     ''      [&]() {\<newline>'' @
     ''        if (!$_storage.has_value()) {\<newline>'' @
     ''          $_printer << "none";\<newline>'' @
     ''          return;\<newline>'' @
     ''        }\<newline>'' @
     ''        $_printer << "some<";\<newline>'' @
     ''        '' @ subst ''$_storage'' ''(*($_storage))'' (printer p) @
     '';\<newline>'' @
     ''        $_printer << ">";\<newline>'' @
     ''      }()''\<close>

definition OptionalProp :: "Property \<Rightarrow> bool \<Rightarrow> Property" where
  \<open>OptionalProp p canDelegateParsing = MkProperty
     \<comment> \<open>summary\<close> (''optional '' @ summary p)
     \<comment> \<open>description\<close> ''''
     \<comment> \<open>storageType\<close> (''std::optional<'' @ storageType p @ ''>'')
     \<comment> \<open>interfaceType\<close> (''std::optional<'' @ interfaceType p @ ''>'')
     \<comment> \<open>predicate\<close>
     (if predicate p \<noteq> TruePred
      then Or [CPred ''!$_self.has_value()'',
               SubstLeaves ''$_self'' ''(*($_self))'' (predicate p)]
      else TruePred)
     \<comment> \<open>convertFromStorage\<close>
     (if hasTrivialStorage p then convertFromStorage p
      else ''($_storage.has_value() ? std::optional<'' @ interfaceType p @ ''>{''
        @ subst ''$_storage'' ''(*($_storage))'' (convertFromStorage p)
        @ ''} : std::nullopt)'')
     \<comment> \<open>assignToStorage\<close>
     (if hasTrivialStorage p then assignToStorage p
      else
     ''[&]() {\<newline>'' @
     ''      if (!$_value.has_value()) {\<newline>'' @
     ''        $_storage = std::nullopt;\<newline>'' @
     ''        return;\<newline>'' @
     ''      }\<newline>'' @
     ''      '' @ makePropStorage p ''presentVal'' @
     ''\<newline>'' @
     ''      [&]('' @ storageType p @
     ''& propStorage) {\<newline>'' @
     ''        '' @ subst ''$_storage'' ''propStorage''
          (subst ''$_value'' ''(*($_value))'' (assignToStorage p)) @
     '';\<newline>'' @
     ''      }(presentVal);\<newline>'' @
     ''      $_storage = std::move(presentVal);\<newline>'' @
     ''    }()'')
     \<comment> \<open>convertToAttribute\<close>
     (''\<newline>'' @
     ''    if (!$_storage.has_value()) {\<newline>'' @
     ''      return ::mlir::ArrayAttr::get($_ctxt, {});\<newline>'' @
     ''    }\<newline>'' @
     ''    auto attr = [&]() -> ::mlir::Attribute {\<newline>'' @
     ''      '' @ subst ''$_storage'' ''(*($_storage))'' (convertToAttribute p) @
     ''\<newline>'' @
     ''    }();\<newline>'' @
     ''    return ::mlir::ArrayAttr::get($_ctxt, {attr});\<newline>'' @
     ''  '')
     \<comment> \<open>convertFromAttribute\<close>
     (''\<newline>'' @
     ''    auto arrayAttr = ::llvm::dyn_cast<::mlir::ArrayAttr>($_attr);\<newline>'' @
     ''    if (!arrayAttr)\<newline>'' @
     ''      return $_diag() << "expected optional properties to materialize as arrays";\<newline>'' @
     ''    if (arrayAttr.size() > 1)\<newline>'' @
     ''      return $_diag() << "expected optional properties to become 0- or 1-element arrays";\<newline>'' @
     ''    if (arrayAttr.empty()) {\<newline>'' @
     ''      $_storage = std::nullopt;\<newline>'' @
     ''      return ::mlir::success();\<newline>'' @
     ''    }\<newline>'' @
     ''    ::mlir::Attribute presentAttr = arrayAttr[0];\<newline>'' @
     ''    '' @ makePropStorage p ''presentVal'' @
     ''\<newline>'' @
     ''    auto presentRes = [&](Attribute propAttr, '' @ storageType p @
     ''& propStorage) -> ::mlir::LogicalResult {\<newline>'' @
     ''      '' @ subst ''$_storage'' ''propStorage''
          (subst ''$_attr'' ''propAttr'' (convertFromAttribute p)) @
     ''\<newline>'' @
     ''    }(presentAttr, presentVal);\<newline>'' @
     ''    if (::mlir::failed(presentRes))\<newline>'' @
     ''      return ::mlir::failure();\<newline>'' @
     ''    $_storage = std::move(presentVal);\<newline>'' @
     ''    return ::mlir::success();\<newline>'' @
     ''  '')
     \<comment> \<open>hashProperty\<close>
     (if hashProperty p = [] then hashProperty p
      else '' hash_value($_storage.has_value() ? std::optional<::llvm::hash_code>{'' @
        subst ''$_storage'' ''(*($_storage))'' (hashProperty p) @ ''} : std::nullopt) '')
     \<comment> \<open>parser\<close>
     (if delegatesParsing p canDelegateParsing then delegatedParser p else generalParser p)
     \<comment> \<open>optionalParser\<close>
     (if delegatesParsing p canDelegateParsing
      then delegatedOptionalParser p else generalOptionalParser p)
     \<comment> \<open>printer\<close>
     (if delegatesParsing p canDelegateParsing then delegatedPrinter p else generalPrinter p)
     \<comment> \<open>writeToMlirBytecode\<close>
     (''\<newline>'' @
     ''    $_writer.writeOwnedBool($_storage.has_value());\<newline>'' @
     ''    if (!$_storage.has_value())\<newline>'' @
     ''      return;\<newline>'' @
     ''  '' @ subst ''$_storage'' ''(*($_storage))'' (writeToMlirBytecode p))
     \<comment> \<open>readFromMlirBytecode\<close>
     (''\<newline>'' @
     ''    bool isPresent = false;\<newline>'' @
     ''    if (::mlir::failed($_reader.readBool(isPresent)))\<newline>'' @
     ''      return ::mlir::failure();\<newline>'' @
     ''    if (!isPresent) {\<newline>'' @
     ''      $_storage = std::nullopt;\<newline>'' @
     ''      return ::mlir::success();\<newline>'' @
     ''    }\<newline>'' @
     ''    '' @ makePropStorage p ''presentVal'' @
     ''\<newline>'' @
     ''    auto presentResult = [&]('' @ storageType p @
     ''& propStorage) -> ::mlir::LogicalResult {\<newline>'' @
     ''      '' @ subst ''$_storage'' ''propStorage'' (readFromMlirBytecode p) @
     '';\<newline>'' @
     ''      return ::mlir::success();\<newline>'' @
     ''    }(presentVal);\<newline>'' @
     ''    if (::mlir::failed(presentResult))\<newline>'' @
     ''      return ::mlir::failure();\<newline>'' @
     ''    $_storage = std::move(presentVal);\<newline>'' @
     ''  '')
     \<comment> \<open>baseProperty\<close> None
     \<comment> \<open>defaultValue\<close> ''std::nullopt''
     \<comment> \<open>storageTypeValueOverride\<close> ''''\<close>

text \<open>
  The class ends with
  \<^verbatim>\<open>assert !or(!not(delegatesParsing), !eq(defaultValue, "std::nullopt")), "..."\<close>.
  An assertion of a class is checked on every record that derives from the class,
  against the final values of the record's fields: a deriving record may fix
  \<open>defaultValue\<close> anew with \<open>let\<close>. A failed assertion is an error of the schema
  compilation and no record results.
\<close>

datatype SchemaError = AssertionFailed string

definition let_defaultValue :: "string \<Rightarrow> Property \<Rightarrow> Property" where
  "let_defaultValue v r = MkProperty
     (summary r) (description r) (storageType r) (interfaceType r) (predicate r)
     (convertFromStorage r) (assignToStorage r) (convertToAttribute r)
     (convertFromAttribute r) (hashProperty r) (parser r) (optionalParser r) (printer r)
     (writeToMlirBytecode r) (readFromMlirBytecode r) (baseProperty r)
     v (storageTypeValueOverride r)"

definition OptionalProp_assert :: "Property \<Rightarrow> bool \<Rightarrow> Property \<Rightarrow> bool" where
  "OptionalProp_assert p canDelegateParsing r =
     (\<not> delegatesParsing p canDelegateParsing \<or> defaultValue r = ''std::nullopt'')"

definition OptionalProp_assert_message :: string where
  "OptionalProp_assert_message =
     ''For delegated parsing to be used, the default value must be nullopt. '' @
     ''To use a non-trivial default, set the canDelegateParsing argument to 0''"

text \<open>
  A record deriving from \<open>OptionalProp<p, canDelegateParsing>\<close>; \<open>letDefault\<close> is the
  value a \<open>let defaultValue = ...\<close> of the record gives, if it has one.
\<close>

definition OptionalProp_record ::
  "Property \<Rightarrow> bool \<Rightarrow> string option \<Rightarrow> SchemaError + Property" where
  "OptionalProp_record p canDelegateParsing letDefault =
     (let r = (case letDefault of
                 None \<Rightarrow> OptionalProp p canDelegateParsing
               | Some v \<Rightarrow> let_defaultValue v (OptionalProp p canDelegateParsing))
      in if OptionalProp_assert p canDelegateParsing r then Inr r
         else Inl (AssertionFailed OptionalProp_assert_message))"

section \<open>The generated code\<close>

text \<open>
  The fragments are bodies of C++ functions. Each fragment a property below needs is
  translated into a function on values: a reference parameter (\<open>$_storage\<close>) is passed
  in and returned; a fragment of the wrapped property, spliced in by \<open>!subst\<close> as the
  body of a lambda, is a function parameter; the fresh variable declared by
  \<open>_makePropStorage\<close> is a parameter holding its initial value (whatever the C++
  initialiser gives, also when there is none).
\<close>

text \<open>
  Modelled from the spec: the host's attribute values, which the property file only
  uses (\<open>isa\<close>, \<open>dyn_cast\<close>, \<open>get\<close>): a marker attribute, a boolean attribute, an
  ordered attribute list, and other kinds (integer, string). \<open>BoolAttr\<close> stands for
  every attribute that \<open>dyn_cast<BoolAttr>\<close> accepts, \<open>IntegerAttr\<close> for the other
  integer attributes. An attribute handed to a conversion is not null.
\<close>

datatype Attribute =
    UnitAttr
  | BoolAttr bool
  | IntegerAttr int
  | StringAttr string
  | ArrayAttr "Attribute list"

text \<open>
  \<open>LogicalResult\<close>: \<open>::mlir::success()\<close>, \<open>::mlir::failure()\<close>, and the failure that
  \<^verbatim>\<open>return $_diag() << "message"\<close> converts to, with the diagnostic it emits.
\<close>

datatype LogicalResult = success | failure | diag string

fun failed :: "LogicalResult \<Rightarrow> bool" where
  "failed success = False"
| "failed failure = True"
| "failed (diag msg) = True"

subsection \<open>The unit property\<close>

definition UnitProp_convertToAttribute :: "bool \<Rightarrow> Attribute" where
  "UnitProp_convertToAttribute storage =
     (if storage then UnitAttr else BoolAttr False)"

definition UnitProp_convertFromAttribute :: "bool \<Rightarrow> Attribute \<Rightarrow> LogicalResult \<times> bool" where
  "UnitProp_convertFromAttribute storage attr =
     (case attr of
        UnitAttr \<Rightarrow> (success, True)
      | BoolAttr boolAttr \<Rightarrow> (success, boolAttr)
      | _ \<Rightarrow> (failure, storage))"

subsection \<open>Arrays\<close>

text \<open>
  \<open>ArrayProp.convertFromAttribute\<close>. The loop over the elements of the array attribute:
  \<open>elemVal\<close> starts as \<open>elemInit\<close>, the element's own fragment \<open>elemConv\<close> runs on it,
  a failed element returns \<open>::mlir::failure()\<close> at once, a converted one is pushed
  onto \<open>$_storage\<close>.
\<close>

fun ArrayProp_convertFromAttribute_loop ::
  "'s \<Rightarrow> ('s \<Rightarrow> Attribute \<Rightarrow> LogicalResult \<times> 's) \<Rightarrow> 's list \<Rightarrow> Attribute list
    \<Rightarrow> LogicalResult \<times> 's list" where
  "ArrayProp_convertFromAttribute_loop elemInit elemConv storage [] = (success, storage)"
| "ArrayProp_convertFromAttribute_loop elemInit elemConv storage (elemAttr # rest) =
     (case elemConv elemInit elemAttr of
        (elemRes, elemVal) \<Rightarrow>
          if failed elemRes then (failure, storage)
          else ArrayProp_convertFromAttribute_loop elemInit elemConv (storage @ [elemVal]) rest)"

definition ArrayProp_convertFromAttribute ::
  "'s \<Rightarrow> ('s \<Rightarrow> Attribute \<Rightarrow> LogicalResult \<times> 's) \<Rightarrow> 's list \<Rightarrow> Attribute
    \<Rightarrow> LogicalResult \<times> 's list" where
  "ArrayProp_convertFromAttribute elemInit elemConv storage attr =
     (case attr of
        ArrayAttr arrayAttr \<Rightarrow>
          ArrayProp_convertFromAttribute_loop elemInit elemConv storage arrayAttr
      | _ \<Rightarrow> (diag ''expected array attribute'', storage))"

text \<open>
  \<open>ArrayProp.predicate\<close> when the element's predicate is not \<open>TruePred\<close>: the expression
  \<^verbatim>\<open>::llvm::all_of($_self, [](const S& baseStore) -> bool {
     return [](I baseIface) -> bool { return (P); }(C); })\<close>
  where \<open>P\<close> is the element's predicate with \<open>$_self\<close> replaced by \<open>baseIface\<close> and \<open>C\<close>
  the element's \<open>convertFromStorage\<close> with \<open>$_storage\<close> replaced by \<open>baseStore\<close>. The
  element's two fragments are function parameters. \<open>all_of\<close> stops at the first
  element that fails.
\<close>

fun all_of :: "'a list \<Rightarrow> ('a \<Rightarrow> bool) \<Rightarrow> bool" where
  "all_of [] P = True"
| "all_of (x # xs) P = (if P x then all_of xs P else False)"

definition storageWrapperPred :: "('s \<Rightarrow> 'i) \<Rightarrow> ('i \<Rightarrow> bool) \<Rightarrow> 's \<Rightarrow> bool" where
  "storageWrapperPred elemConvertFromStorage elemPredicate =
     (\<lambda>baseStore. (\<lambda>baseIface. elemPredicate baseIface) (elemConvertFromStorage baseStore))"

definition ArrayProp_predicate :: "('s \<Rightarrow> 'i) \<Rightarrow> ('i \<Rightarrow> bool) \<Rightarrow> 's list \<Rightarrow> bool" where
  "ArrayProp_predicate elemConvertFromStorage elemPredicate self =
     all_of self (storageWrapperPred elemConvertFromStorage elemPredicate)"

subsection \<open>Optionals\<close>

text \<open>
  \<open>OptionalProp.convertFromAttribute\<close> and \<open>convertToAttribute\<close>; \<open>std::optional\<close> is
  \<open>option\<close>, \<open>presentVal\<close> starts as \<open>presentInit\<close>.
\<close>

definition OptionalProp_convertFromAttribute ::
  "'s \<Rightarrow> ('s \<Rightarrow> Attribute \<Rightarrow> LogicalResult \<times> 's) \<Rightarrow> 's option \<Rightarrow> Attribute
    \<Rightarrow> LogicalResult \<times> 's option" where
  "OptionalProp_convertFromAttribute presentInit pConv storage attr =
     (case attr of
        ArrayAttr arrayAttr \<Rightarrow>
          if length arrayAttr > 1
          then (diag ''expected optional properties to become 0- or 1-element arrays'', storage)
          else if arrayAttr = [] then (success, None)
          else (case pConv presentInit (arrayAttr ! 0) of
                  (presentRes, presentVal) \<Rightarrow>
                    if failed presentRes then (failure, storage)
                    else (success, Some presentVal))
      | _ \<Rightarrow> (diag ''expected optional properties to materialize as arrays'', storage))"

definition OptionalProp_convertToAttribute :: "('s \<Rightarrow> Attribute) \<Rightarrow> 's option \<Rightarrow> Attribute" where
  "OptionalProp_convertToAttribute pToAttr storage =
     (case storage of
        None \<Rightarrow> ArrayAttr []
      | Some v \<Rightarrow> ArrayAttr [pToAttr v])"

subsection \<open>Bytecode of the primitive kinds\<close>

text \<open>
  Modelled from the spec: the binary reader and writer primitives for variable-length
  integers, owned strings and booleans, "assumed to exist and be correct". The writer
  holds the items written so far, the reader the items still to read; a read of a kind
  returns the next item when it is of that kind and fails otherwise.
\<close>

datatype BytecodeItem = VarInt "64 word" | OwnedString string | OwnedBool bool

type_synonym DialectBytecodeWriter = "BytecodeItem list"
type_synonym DialectBytecodeReader = "BytecodeItem list"

definition writeVarInt :: "DialectBytecodeWriter \<Rightarrow> 64 word \<Rightarrow> DialectBytecodeWriter" where
  "writeVarInt writer v = writer @ [VarInt v]"

definition writeOwnedString :: "DialectBytecodeWriter \<Rightarrow> string \<Rightarrow> DialectBytecodeWriter" where
  "writeOwnedString writer s = writer @ [OwnedString s]"

definition writeOwnedBool :: "DialectBytecodeWriter \<Rightarrow> bool \<Rightarrow> DialectBytecodeWriter" where
  "writeOwnedBool writer b = writer @ [OwnedBool b]"

definition readVarInt :: "DialectBytecodeReader \<Rightarrow> (64 word \<times> DialectBytecodeReader) option" where
  "readVarInt reader = (case reader of VarInt v # rest \<Rightarrow> Some (v, rest) | _ \<Rightarrow> None)"

definition readString :: "DialectBytecodeReader \<Rightarrow> (string \<times> DialectBytecodeReader) option" where
  "readString reader = (case reader of OwnedString s # rest \<Rightarrow> Some (s, rest) | _ \<Rightarrow> None)"

definition readBool :: "DialectBytecodeReader \<Rightarrow> (bool \<times> DialectBytecodeReader) option" where
  "readBool reader = (case reader of OwnedBool b # rest \<Rightarrow> Some (b, rest) | _ \<Rightarrow> None)"

text \<open>
  \<open>IntProp\<close>: the storage is a signed integer of some width (\<open>int32_t\<close>, \<open>int64_t\<close>).
  \<open>writeVarInt\<close> takes a \<open>uint64_t\<close>, so the stored value is converted on the call
  (sign extension); \<open>$_storage = val\<close> converts the \<open>uint64_t\<close> read back to the
  storage type (the low bits).
\<close>

definition IntProp_writeToMlirBytecode ::
  "DialectBytecodeWriter \<Rightarrow> 'a::len word \<Rightarrow> DialectBytecodeWriter" where
  "IntProp_writeToMlirBytecode writer storage = writeVarInt writer (scast storage)"

definition IntProp_readFromMlirBytecode ::
  "DialectBytecodeReader \<Rightarrow> 'a::len word \<Rightarrow> LogicalResult \<times> 'a word \<times> DialectBytecodeReader" where
  "IntProp_readFromMlirBytecode reader storage =
     (case readVarInt reader of
        None \<Rightarrow> (failure, storage, reader)
      | Some (val, reader') \<Rightarrow> (success, ucast val, reader'))"

definition StringProp_writeToMlirBytecode ::
  "DialectBytecodeWriter \<Rightarrow> string \<Rightarrow> DialectBytecodeWriter" where
  "StringProp_writeToMlirBytecode writer storage = writeOwnedString writer storage"

definition StringProp_readFromMlirBytecode ::
  "DialectBytecodeReader \<Rightarrow> string \<Rightarrow> LogicalResult \<times> string \<times> DialectBytecodeReader" where
  "StringProp_readFromMlirBytecode reader storage =
     (case readString reader of
        None \<Rightarrow> (failure, storage, reader)
      | Some (val, reader') \<Rightarrow> (success, val, reader'))"

definition BoolProp_writeToMlirBytecode ::
  "DialectBytecodeWriter \<Rightarrow> bool \<Rightarrow> DialectBytecodeWriter" where
  "BoolProp_writeToMlirBytecode writer storage = writeOwnedBool writer storage"

definition BoolProp_readFromMlirBytecode ::
  "DialectBytecodeReader \<Rightarrow> bool \<Rightarrow> LogicalResult \<times> bool \<times> DialectBytecodeReader" where
  "BoolProp_readFromMlirBytecode reader storage =
     (case readBool reader of
        None \<Rightarrow> (failure, storage, reader)
      | Some (b, reader') \<Rightarrow> (success, b, reader'))"

definition UnitProp_writeToMlirBytecode ::
  "DialectBytecodeWriter \<Rightarrow> bool \<Rightarrow> DialectBytecodeWriter" where
  "UnitProp_writeToMlirBytecode writer storage = writeOwnedBool writer storage"

definition UnitProp_readFromMlirBytecode ::
  "DialectBytecodeReader \<Rightarrow> bool \<Rightarrow> LogicalResult \<times> bool \<times> DialectBytecodeReader" where
  "UnitProp_readFromMlirBytecode reader storage =
     (case readBool reader of
        None \<Rightarrow> (failure, storage, reader)
      | Some (b, reader') \<Rightarrow> (success, b, reader'))"

section \<open>Auxiliary facts\<close>

lemma ucast_scast_low_bits:
  fixes v :: "'a::len word"
  assumes "LENGTH('a) \<le> 64"
  shows "ucast (scast v :: 64 word) = v"
proof (rule bit_word_eqI)
  fix n
  assume n: "n < LENGTH('a)"
  then have m: "min (LENGTH('a) - Suc 0) n = n"
    by simp
  from n assms have "n < 64"
    by simp
  with n m show "bit (ucast (scast v :: 64 word) :: 'a word) n \<longleftrightarrow> bit v n"
    by (simp add: bit_simps)
qed

lemma IntProp_bytecode_roundtrip:
  fixes v :: "'a::len word"
  assumes "LENGTH('a) \<le> 64"
  shows "IntProp_readFromMlirBytecode (IntProp_writeToMlirBytecode [] v @ rest) s
           = (success, v, rest)"
  using assms
  by (simp add: IntProp_readFromMlirBytecode_def IntProp_writeToMlirBytecode_def
      writeVarInt_def readVarInt_def ucast_scast_low_bits)

text \<open>
  The array loop, in closed form: it converts the longest prefix of elements that
  convert, appends their values in order, and succeeds exactly when that is all of
  them.
\<close>

lemma ArrayProp_convertFromAttribute_loop_takeWhile:
  "ArrayProp_convertFromAttribute_loop elemInit elemConv storage elems =
     (if list_all (\<lambda>a. \<not> failed (fst (elemConv elemInit a))) elems then success else failure,
      storage @ map (\<lambda>a. snd (elemConv elemInit a))
                  (takeWhile (\<lambda>a. \<not> failed (fst (elemConv elemInit a))) elems))"
proof (induction elems arbitrary: storage)
  case Nil
  show ?case by simp
next
  case (Cons elemAttr rest)
  show ?case
  proof (cases "elemConv elemInit elemAttr")
    case (Pair elemRes elemVal)
    with Cons.IH [of "storage @ [elemVal]"] show ?thesis
      by simp
  qed
qed

lemma all_of_list_all: "all_of xs P = list_all P xs"
  by (induction xs) simp_all

lemma sublist_here: "sublist xs (xs @ ss)"
  by (rule sublist_append_rightI)

lemma sublist_skip: "sublist xs ys \<Longrightarrow> sublist xs (ps @ ys)"
  by (metis sublist_append)

lemma sublist_keep: "sublist xs ys \<Longrightarrow> sublist xs (ys @ ss)"
  by (metis sublist_append)

text \<open>Fields of the records used as examples.\<close>

lemma I32Prop_fields:
  "defaultValue I32Prop = []"
  "storageTypeValueOverride I32Prop = []"
  "optionalParser I32Prop \<noteq> []"
  "predicate I32Prop = TruePred"
  "summary I32Prop = ''int32_t''"
  "storageType I32Prop = ''int32_t''"
  "printer I32Prop = ''$_printer.printInteger($_storage)''"
  unfolding I32Prop_def IntProp_def Property_base_def Let_def Property.sel
  by simp_all

lemma UnitProp_fields:
  "defaultValue UnitProp = ''false''"
  "storageTypeValueOverride UnitProp = []"
  "storageType UnitProp = ''bool''"
  unfolding UnitProp_def Property_base_def Let_def Property.sel
  by simp_all

lemma StringProp_fields:
  "storageType StringProp = ''std::string''"
  "interfaceType StringProp = ''::llvm::StringRef''"
  unfolding StringProp_def Property_base_def Let_def Property.sel
  by simp_all

lemma Property_base_fields:
  "defaultValue (Property_base s d i) = []"
  "optionalParser (Property_base s d i) = []"
  unfolding Property_base_def Property.sel
  by simp_all

lemma defaultValue_OptionalProp:
  "defaultValue (OptionalProp p canDelegateParsing) = ''std::nullopt''"
  unfolding OptionalProp_def Property.sel
  by (rule refl)

lemma defaultValue_let_defaultValue: "defaultValue (let_defaultValue v r) = v"
  by (simp add: let_defaultValue_def)

section \<open>The claims\<close>

text \<open>
  C1, as amended. When the attribute list holds a malformed element (one the element's
  conversion fails on), \<open>ArrayProp\<close>'s conversion returns failure; the destination keeps
  its previous contents followed by the converted values of the elements before the
  first malformed one, in order. Neither the malformed element nor any later one is
  pushed. (The elements before it are not taken back: the loop pushes each converted
  element at once.)
\<close>

theorem ArrayProp_convertFromAttribute_failure:
  assumes "\<exists>a \<in> set arrayAttr. failed (fst (elemConv elemInit a))"
  shows "ArrayProp_convertFromAttribute elemInit elemConv storage (ArrayAttr arrayAttr) =
           (failure,
            storage @ map (\<lambda>a. snd (elemConv elemInit a))
              (takeWhile (\<lambda>a. \<not> failed (fst (elemConv elemInit a))) arrayAttr))"
proof -
  from assms have "\<not> list_all (\<lambda>a. \<not> failed (fst (elemConv elemInit a))) arrayAttr"
    by (simp add: list_all_iff)
  then show ?thesis
    by (simp add: ArrayProp_convertFromAttribute_def
        ArrayProp_convertFromAttribute_loop_takeWhile)
qed

theorem ArrayProp_convertFromAttribute_failure_witness:
  "ArrayProp_convertFromAttribute False UnitProp_convertFromAttribute [False]
     (ArrayAttr [UnitAttr, BoolAttr False, StringAttr ''x'', UnitAttr])
   = (failure, [False, True, False])"
  using ArrayProp_convertFromAttribute_failure
    [of "[UnitAttr, BoolAttr False, StringAttr ''x'', UnitAttr]"
        UnitProp_convertFromAttribute False "[False]"]
  by (simp add: UnitProp_convertFromAttribute_def)

text \<open>
  C1 as stated fails: an array of unit properties converted from the list of a marker
  attribute and a string attribute. The string attribute is malformed for a unit
  property, the conversion fails, and the destination, empty before, holds the first
  element.
\<close>

theorem ArrayProp_convertFromAttribute_partial_counterexample:
  "failed (fst (UnitProp_convertFromAttribute False (StringAttr ''x''))) \<and>
   ArrayProp_convertFromAttribute False UnitProp_convertFromAttribute []
     (ArrayAttr [UnitAttr, StringAttr ''x'']) = (failure, [True]) \<and>
   [True] \<noteq> ([] :: bool list)"
  by (simp add: ArrayProp_convertFromAttribute_def UnitProp_convertFromAttribute_def)

text \<open>
  C8. The unit property's attribute conversions: \<open>true\<close> becomes the marker attribute,
  \<open>false\<close> an explicit boolean-false attribute; the marker converts back to \<open>true\<close>, a
  boolean attribute to its value, so a stored value survives the round trip; every
  other kind of attribute is rejected with failure (and the storage is left as it was).
\<close>

theorem UnitProp_attribute_conversion:
  "UnitProp_convertToAttribute True = UnitAttr \<and>
   UnitProp_convertToAttribute False = BoolAttr False \<and>
   UnitProp_convertFromAttribute storage UnitAttr = (success, True) \<and>
   UnitProp_convertFromAttribute storage (BoolAttr b) = (success, b) \<and>
   UnitProp_convertFromAttribute storage (UnitProp_convertToAttribute v) = (success, v) \<and>
   (attr \<noteq> UnitAttr \<and> (\<forall>b'. attr \<noteq> BoolAttr b') \<longrightarrow>
      UnitProp_convertFromAttribute storage attr = (failure, storage))"
  by (cases attr)
    (simp_all add: UnitProp_convertToAttribute_def UnitProp_convertFromAttribute_def)

theorem UnitProp_attribute_conversion_witness:
  "UnitProp_convertFromAttribute True (UnitProp_convertToAttribute False) = (success, False) \<and>
   UnitProp_convertFromAttribute True (IntegerAttr 1) = (failure, True)"
  using UnitProp_attribute_conversion [of True False False "IntegerAttr 1"]
  by simp

text \<open>
  C5. The optional property's attribute conversions: absent is the empty attribute
  list, present a list of one element. Converting from an attribute that is no list, or
  from a list of more than one element, is an error with a diagnostic; the empty list
  gives absent; a list of one element gives the present value that the wrapped
  property's conversion produces (and its failure, if it fails, with the storage left
  as it was).
\<close>

theorem OptionalProp_attribute_conversion:
  "OptionalProp_convertToAttribute pToAttr None = ArrayAttr [] \<and>
   OptionalProp_convertToAttribute pToAttr (Some v) = ArrayAttr [pToAttr v] \<and>
   ((\<forall>xs. attr \<noteq> ArrayAttr xs) \<longrightarrow>
      OptionalProp_convertFromAttribute presentInit pConv storage attr =
        (diag ''expected optional properties to materialize as arrays'', storage)) \<and>
   (length arrayAttr > 1 \<longrightarrow>
      OptionalProp_convertFromAttribute presentInit pConv storage (ArrayAttr arrayAttr) =
        (diag ''expected optional properties to become 0- or 1-element arrays'', storage)) \<and>
   OptionalProp_convertFromAttribute presentInit pConv storage (ArrayAttr []) =
     (success, None) \<and>
   OptionalProp_convertFromAttribute presentInit pConv storage (ArrayAttr [presentAttr]) =
     (if failed (fst (pConv presentInit presentAttr)) then (failure, storage)
      else (success, Some (snd (pConv presentInit presentAttr))))"
  by (cases attr; cases "pConv presentInit presentAttr")
    (simp_all add: OptionalProp_convertToAttribute_def OptionalProp_convertFromAttribute_def)

theorem OptionalProp_attribute_conversion_witness:
  "OptionalProp_convertFromAttribute False UnitProp_convertFromAttribute None UnitAttr =
     (diag ''expected optional properties to materialize as arrays'', None) \<and>
   OptionalProp_convertFromAttribute False UnitProp_convertFromAttribute None
     (ArrayAttr [UnitAttr, UnitAttr]) =
     (diag ''expected optional properties to become 0- or 1-element arrays'', None) \<and>
   OptionalProp_convertFromAttribute False UnitProp_convertFromAttribute (Some False)
     (ArrayAttr [UnitAttr]) = (success, Some True)"
  using OptionalProp_attribute_conversion
    [of UnitProp_convertToAttribute True UnitAttr False UnitProp_convertFromAttribute None
        "[UnitAttr, UnitAttr]"]
    OptionalProp_attribute_conversion
    [of UnitProp_convertToAttribute True UnitAttr False UnitProp_convertFromAttribute
        "Some False" "[]" UnitAttr]
  by (simp add: UnitProp_convertFromAttribute_def)

text \<open>
  C6. For each primitive kind (the integer property at a signed storage type of at most
  64 bits, so the 32- and 64-bit integer properties, the boolean, the string and the
  unit property), reading back what \<open>writeToMlirBytecode\<close> wrote for a stored value
  \<open>v\<close> succeeds, yields \<open>v\<close> whatever the storage held before, and leaves the reader at
  what follows.
\<close>

theorem primitive_bytecode_roundtrip:
  "(LENGTH('a::len) \<le> 64 \<longrightarrow>
      IntProp_readFromMlirBytecode (IntProp_writeToMlirBytecode [] (i :: 'a word) @ rest) s
        = (success, i, rest)) \<and>
   IntProp_readFromMlirBytecode (IntProp_writeToMlirBytecode [] (i32 :: 32 word) @ rest) s32
     = (success, i32, rest) \<and>
   IntProp_readFromMlirBytecode (IntProp_writeToMlirBytecode [] (i64 :: 64 word) @ rest) s64
     = (success, i64, rest) \<and>
   BoolProp_readFromMlirBytecode (BoolProp_writeToMlirBytecode [] b @ rest) sb
     = (success, b, rest) \<and>
   StringProp_readFromMlirBytecode (StringProp_writeToMlirBytecode [] str @ rest) sstr
     = (success, str, rest) \<and>
   UnitProp_readFromMlirBytecode (UnitProp_writeToMlirBytecode [] u @ rest) su
     = (success, u, rest)"
  by (simp add: IntProp_bytecode_roundtrip
      BoolProp_readFromMlirBytecode_def BoolProp_writeToMlirBytecode_def
      StringProp_readFromMlirBytecode_def StringProp_writeToMlirBytecode_def
      UnitProp_readFromMlirBytecode_def UnitProp_writeToMlirBytecode_def
      writeOwnedBool_def writeOwnedString_def readBool_def readString_def)

theorem primitive_bytecode_roundtrip_witness:
  "IntProp_readFromMlirBytecode (IntProp_writeToMlirBytecode [] (- 5 :: 32 word)) (0 :: 32 word)
     = (success, - 5, []) \<and>
   IntProp_writeToMlirBytecode [] (- 5 :: 32 word) = [VarInt 18446744073709551611] \<and>
   StringProp_readFromMlirBytecode (StringProp_writeToMlirBytecode [] ''abc'') ''''
     = (success, ''abc'', [])"
  using primitive_bytecode_roundtrip
    [where 'a = 32, of "- 5" "[]" 0 "- 5" 0 0 0 True True "''abc''" "''''" True True]
  by (simp add: IntProp_writeToMlirBytecode_def writeVarInt_def)

text \<open>
  C7. The predicate of \<open>ArrayProp<elem>\<close> is \<open>TruePred\<close> when the element's predicate is
  \<open>TruePred\<close>; otherwise it is \<open>::llvm::all_of($_self, w)\<close>, with \<open>w\<close> the wrapper that
  converts an element from storage to interface form and applies the element's
  predicate (its \<open>$_self\<close> renamed) to the result; that expression holds on a stored
  sequence exactly when the element predicate holds of every converted element.
\<close>

theorem ArrayProp_predicate_all_elements:
  "predicate (ArrayProp elem newSummary) =
     (if predicate elem = TruePred then TruePred
      else Concat ''::llvm::all_of($_self, ''
        (Concat
           (''[](const '' @ storageType elem @ ''& baseStore) -> bool { return []('' @
              interfaceType elem @ '' baseIface) -> bool { return ('')
           (SubstLeaves ''$_self'' ''baseIface'' (predicate elem))
           (''); }('' @ subst ''$_storage'' ''baseStore'' (convertFromStorage elem) @ ''); }''))
        '')'') \<and>
   (ArrayProp_predicate elemConvertFromStorage elemPredicate self \<longleftrightarrow>
      (\<forall>baseStore \<in> set self. elemPredicate (elemConvertFromStorage baseStore)))"
  unfolding ArrayProp_def Property.sel makeStorageWrapperPred_def
  by (simp add: ArrayProp_predicate_def storageWrapperPred_def all_of_list_all list_all_iff)

theorem ArrayProp_predicate_all_elements_witness:
  "predicate (ArrayProp I32Prop '''') = TruePred \<and>
   ArrayProp_predicate (\<lambda>s :: int. s) (\<lambda>i. i > 0) [3, 5] \<and>
   \<not> ArrayProp_predicate (\<lambda>s :: int. s) (\<lambda>i. i > 0) [3, - 1, 5]"
  using ArrayProp_predicate_all_elements [of I32Prop "''''" "\<lambda>s :: int. s" "\<lambda>i. i > 0" "[3, 5]"]
    ArrayProp_predicate_all_elements [of I32Prop "''''" "\<lambda>s :: int. s" "\<lambda>i. i > 0" "[3, - 1, 5]"]
  by (simp add: I32Prop_fields)

text \<open>
  C9. \<open>DefaultValuedProp<p, default, storageDefault>\<close> differs from \<open>p\<close> in its default
  value and its storage initialiser only (and refers back to \<open>p\<close>): the conversions
  between storage and interface and to and from attributes, the hash expression, the
  parser and the optional parser, the printer, the bytecode writer and reader, the
  predicate, both types, the summary and the description are those of \<open>p\<close>.
\<close>

theorem DefaultValuedProp_forwards:
  "defaultValue (DefaultValuedProp p v storageDefault) = v \<and>
   storageTypeValueOverride (DefaultValuedProp p v storageDefault) = storageDefault \<and>
   baseProperty (DefaultValuedProp p v storageDefault) = Some p \<and>
   convertFromStorage (DefaultValuedProp p v storageDefault) = convertFromStorage p \<and>
   assignToStorage (DefaultValuedProp p v storageDefault) = assignToStorage p \<and>
   convertToAttribute (DefaultValuedProp p v storageDefault) = convertToAttribute p \<and>
   convertFromAttribute (DefaultValuedProp p v storageDefault) = convertFromAttribute p \<and>
   hashProperty (DefaultValuedProp p v storageDefault) = hashProperty p \<and>
   parser (DefaultValuedProp p v storageDefault) = parser p \<and>
   optionalParser (DefaultValuedProp p v storageDefault) = optionalParser p \<and>
   printer (DefaultValuedProp p v storageDefault) = printer p \<and>
   writeToMlirBytecode (DefaultValuedProp p v storageDefault) = writeToMlirBytecode p \<and>
   readFromMlirBytecode (DefaultValuedProp p v storageDefault) = readFromMlirBytecode p \<and>
   predicate (DefaultValuedProp p v storageDefault) = predicate p \<and>
   storageType (DefaultValuedProp p v storageDefault) = storageType p \<and>
   interfaceType (DefaultValuedProp p v storageDefault) = interfaceType p \<and>
   summary (DefaultValuedProp p v storageDefault) = summary p \<and>
   description (DefaultValuedProp p v storageDefault) = description p"
  by (simp add: DefaultValuedProp_def)

theorem DefaultValuedProp_forwards_witness:
  "defaultValue (DefaultValuedProp I32Prop ''0'' '''') = ''0'' \<and>
   printer (DefaultValuedProp I32Prop ''0'' '''') = ''$_printer.printInteger($_storage)'' \<and>
   storageType (DefaultValuedProp I32Prop ''0'' '''') = ''int32_t''"
  using DefaultValuedProp_forwards [of I32Prop "''0''" "''''"]
  by (simp add: I32Prop_fields)

text \<open>
  C4. \<open>ConfinedProp<p, pred, newSummary>\<close>: the predicate is \<open>And<[p.predicate, pred]>\<close>
  when \<open>p.predicate\<close> is not \<open>TruePred\<close> and \<open>pred\<close> alone when it is; the summary is
  \<open>newSummary\<close> when one is given and that of \<open>p\<close> otherwise; every other field is that
  of \<open>p\<close>.
\<close>

theorem ConfinedProp_predicate_and_forwards:
  "predicate (ConfinedProp p q newSummary) =
     (if predicate p = TruePred then q else And [predicate p, q]) \<and>
   summary (ConfinedProp p q newSummary) = (if newSummary = [] then summary p else newSummary) \<and>
   description (ConfinedProp p q newSummary) = description p \<and>
   storageType (ConfinedProp p q newSummary) = storageType p \<and>
   interfaceType (ConfinedProp p q newSummary) = interfaceType p \<and>
   convertFromStorage (ConfinedProp p q newSummary) = convertFromStorage p \<and>
   assignToStorage (ConfinedProp p q newSummary) = assignToStorage p \<and>
   convertToAttribute (ConfinedProp p q newSummary) = convertToAttribute p \<and>
   convertFromAttribute (ConfinedProp p q newSummary) = convertFromAttribute p \<and>
   hashProperty (ConfinedProp p q newSummary) = hashProperty p \<and>
   parser (ConfinedProp p q newSummary) = parser p \<and>
   optionalParser (ConfinedProp p q newSummary) = optionalParser p \<and>
   printer (ConfinedProp p q newSummary) = printer p \<and>
   writeToMlirBytecode (ConfinedProp p q newSummary) = writeToMlirBytecode p \<and>
   readFromMlirBytecode (ConfinedProp p q newSummary) = readFromMlirBytecode p \<and>
   defaultValue (ConfinedProp p q newSummary) = defaultValue p \<and>
   storageTypeValueOverride (ConfinedProp p q newSummary) = storageTypeValueOverride p"
  by (simp add: ConfinedProp_def)

theorem ConfinedProp_predicate_and_forwards_witness:
  "predicate (ConfinedProp I32Prop (CPred ''$_self > 0'') '''') = CPred ''$_self > 0'' \<and>
   predicate (ConfinedProp (ConfinedProp I32Prop (CPred ''$_self > 0'') '''')
                (CPred ''$_self < 9'') ''digit'')
     = And [CPred ''$_self > 0'', CPred ''$_self < 9''] \<and>
   summary (ConfinedProp I32Prop (CPred ''$_self > 0'') '''') = ''int32_t''"
  using ConfinedProp_predicate_and_forwards [of I32Prop "CPred ''$_self > 0''" "''''"]
    ConfinedProp_predicate_and_forwards
      [of "ConfinedProp I32Prop (CPred ''$_self > 0'') ''''" "CPred ''$_self < 9''" "''digit''"]
  by (simp add: I32Prop_fields)

text \<open>
  Both parsers of the delegated strategy begin with the test for the keyword \<open>none\<close>,
  both of the general strategy with the declaration of \<open>keyword\<close>; the general printer
  is longer than the delegated one by the \<open>some<\<close> and \<open>>\<close> it prints. So the two
  strategies never give the same text.
\<close>

lemma delegatedParser_neq_generalParser:
  "delegatedParser p \<noteq> generalParser p"
  "delegatedOptionalParser p \<noteq> generalOptionalParser p"
  by (simp_all add: delegatedParser_def delegatedOptionalParser_def delegatedParserBegin_def
      generalParser_def generalOptionalParser_def generalParserBegin_def)

lemma delegatedPrinter_neq_generalPrinter: "delegatedPrinter p \<noteq> generalPrinter p"
proof
  assume "delegatedPrinter p = generalPrinter p"
  then have "length (delegatedPrinter p) = length (generalPrinter p)"
    by simp
  then show False
    by (simp add: delegatedPrinter_def generalPrinter_def)
qed

text \<open>
  C3. \<open>OptionalProp<p, canDelegateParsing>\<close> takes the delegated parser, optional parser
  and printer exactly when \<open>p\<close> has no default value, \<open>p\<close> has an optional parser and
  \<open>canDelegateParsing\<close> is set, and the general (\<open>none\<close> / \<open>some<...>\<close>) ones in every
  other case. The choice is a function of the descriptor alone: the fields of the record
  hold the chosen text.
\<close>

theorem OptionalProp_strategy:
  \<open>parser (OptionalProp p canDelegateParsing) =
     (if defaultValue p = [] \<and> optionalParser p \<noteq> [] \<and> canDelegateParsing
      then delegatedParser p else generalParser p) \<and>
   optionalParser (OptionalProp p canDelegateParsing) =
     (if defaultValue p = [] \<and> optionalParser p \<noteq> [] \<and> canDelegateParsing
      then delegatedOptionalParser p else generalOptionalParser p) \<and>
   printer (OptionalProp p canDelegateParsing) =
     (if defaultValue p = [] \<and> optionalParser p \<noteq> [] \<and> canDelegateParsing
      then delegatedPrinter p else generalPrinter p) \<and>
   delegatedParser p \<noteq> generalParser p \<and>
   delegatedOptionalParser p \<noteq> generalOptionalParser p \<and>
   delegatedPrinter p \<noteq> generalPrinter p \<and>
   sublist ''$_printer << "some<";'' (generalPrinter p)\<close>
proof -
  have line: \<open>sublist ''$_printer << "some<";'' ''        $_printer << "some<";\<newline>''\<close>
    by (simp add: sublist_Cons_right)
  have \<open>sublist ''$_printer << "some<";'' (generalPrinter p)\<close>
    unfolding generalPrinter_def
    by ((rule sublist_keep, rule line) | rule sublist_skip)+
  then show ?thesis
    unfolding OptionalProp_def Property.sel delegatesParsing_def
    by (simp add: delegatedParser_neq_generalParser delegatedPrinter_neq_generalPrinter)
qed

theorem OptionalProp_strategy_witness:
  "printer (OptionalProp I32Prop True) = delegatedPrinter I32Prop \<and>
   printer (OptionalProp I32Prop False) = generalPrinter I32Prop \<and>
   printer (OptionalProp UnitProp True) = generalPrinter UnitProp \<and>
   printer (OptionalProp (Property_base ''T'' '''' ''T'') True)
     = generalPrinter (Property_base ''T'' '''' ''T'')"
  using OptionalProp_strategy [of I32Prop True] OptionalProp_strategy [of I32Prop False]
    OptionalProp_strategy [of UnitProp True]
    OptionalProp_strategy [of "Property_base ''T'' '''' ''T''" True]
  by (simp add: I32Prop_fields UnitProp_fields Property_base_fields)

text \<open>
  C2. The assertion of \<open>OptionalProp\<close> holds of every record that results: delegated
  parsing goes with the default value \<open>std::nullopt\<close> only. The class as written always
  passes (its default is \<open>std::nullopt\<close>); a deriving record that fixes another default
  is rejected with the assertion's message exactly when the delegated strategy was
  chosen, and is accepted with that default when it was not.
\<close>

theorem OptionalProp_assertion:
  "OptionalProp_record p canDelegateParsing None = Inr (OptionalProp p canDelegateParsing) \<and>
   (OptionalProp_record p canDelegateParsing letDefault = Inr r \<longrightarrow>
      OptionalProp_assert p canDelegateParsing r \<and>
      (delegatesParsing p canDelegateParsing \<longrightarrow> defaultValue r = ''std::nullopt'')) \<and>
   (delegatesParsing p canDelegateParsing \<and> v \<noteq> ''std::nullopt'' \<longrightarrow>
      OptionalProp_record p canDelegateParsing (Some v) =
        Inl (AssertionFailed OptionalProp_assert_message)) \<and>
   (\<not> delegatesParsing p canDelegateParsing \<longrightarrow>
      OptionalProp_record p canDelegateParsing (Some v) =
        Inr (let_defaultValue v (OptionalProp p canDelegateParsing)))"
  by (cases letDefault)
    (auto simp add: OptionalProp_record_def OptionalProp_assert_def Let_def
      defaultValue_OptionalProp defaultValue_let_defaultValue split: if_splits)

theorem OptionalProp_assertion_witness:
  "OptionalProp_record I32Prop True None = Inr (OptionalProp I32Prop True) \<and>
   defaultValue (OptionalProp I32Prop True) = ''std::nullopt'' \<and>
   OptionalProp_record I32Prop True (Some ''0'') =
     Inl (AssertionFailed OptionalProp_assert_message) \<and>
   OptionalProp_record I32Prop False (Some ''0'') =
     Inr (let_defaultValue ''0'' (OptionalProp I32Prop False))"
  using OptionalProp_assertion [of I32Prop True None "OptionalProp I32Prop True" "''0''"]
    OptionalProp_assertion [of I32Prop False None "OptionalProp I32Prop False" "''0''"]
  by (simp add: delegatesParsing_def I32Prop_fields)

text \<open>
  C10. Every fresh storage slot that \<open>ArrayProp\<close> and \<open>OptionalProp\<close> declare for the
  wrapped property (\<open>elemVal\<close>, \<open>presentVal\<close>) is declared by \<open>_makePropStorage\<close>, whose
  initialiser is the wrapped property's \<open>storageTypeValueOverride\<close> when that is not
  empty, else its \<open>defaultValue\<close> when that is not empty, else none (the storage type's
  default construction). The declaration stands in the attribute conversion, both
  parsers and the bytecode reader of either combinator, and in the storage assignment
  of an optional whose storage is not trivial.
\<close>

theorem makePropStorage_precedence:
  "makePropStorage prop name =
     storageType prop @ '' '' @ name @
       (if storageTypeValueOverride prop \<noteq> [] then '' = '' @ storageTypeValueOverride prop
        else if defaultValue prop \<noteq> [] then '' = '' @ defaultValue prop
        else []) @ '';'' \<and>
   sublist (makePropStorage elem ''elemVal'') (convertFromAttribute (ArrayProp elem s)) \<and>
   sublist (makePropStorage elem ''elemVal'') (parser (ArrayProp elem s)) \<and>
   sublist (makePropStorage elem ''elemVal'') (optionalParser (ArrayProp elem s)) \<and>
   sublist (makePropStorage elem ''elemVal'') (readFromMlirBytecode (ArrayProp elem s)) \<and>
   sublist (makePropStorage p ''presentVal'') (convertFromAttribute (OptionalProp p c)) \<and>
   sublist (makePropStorage p ''presentVal'') (parser (OptionalProp p c)) \<and>
   sublist (makePropStorage p ''presentVal'') (optionalParser (OptionalProp p c)) \<and>
   sublist (makePropStorage p ''presentVal'') (readFromMlirBytecode (OptionalProp p c)) \<and>
   (\<not> hasTrivialStorage p \<longrightarrow>
      sublist (makePropStorage p ''presentVal'') (assignToStorage (OptionalProp p c)))"
proof -
  have rule: "makePropStorage prop name =
     storageType prop @ '' '' @ name @
       (if storageTypeValueOverride prop \<noteq> [] then '' = '' @ storageTypeValueOverride prop
        else if defaultValue prop \<noteq> [] then '' = '' @ defaultValue prop
        else []) @ '';''"
    by (simp add: makePropStorage_def)
  have a1: "sublist (makePropStorage elem ''elemVal'') (convertFromAttribute (ArrayProp elem s))"
    unfolding ArrayProp_def Property.sel
    by (rule sublist_here | rule sublist_skip)+
  have a2: "sublist (makePropStorage elem ''elemVal'') (parser (ArrayProp elem s))"
    unfolding ArrayProp_def Property.sel theParserBegin_def append_assoc
    by (rule sublist_here | rule sublist_skip)+
  have a3: "sublist (makePropStorage elem ''elemVal'') (optionalParser (ArrayProp elem s))"
    unfolding ArrayProp_def Property.sel theParserBegin_def append_assoc
    by (rule sublist_here | rule sublist_skip)+
  have a4: "sublist (makePropStorage elem ''elemVal'') (readFromMlirBytecode (ArrayProp elem s))"
    unfolding ArrayProp_def Property.sel
    by (rule sublist_here | rule sublist_skip)+
  have o1: "sublist (makePropStorage p ''presentVal'') (convertFromAttribute (OptionalProp p c))"
    unfolding OptionalProp_def Property.sel
    by (rule sublist_here | rule sublist_skip)+
  have strategies:
    "sublist (makePropStorage p ''presentVal'') (delegatedParser p)"
    "sublist (makePropStorage p ''presentVal'') (generalParser p)"
    "sublist (makePropStorage p ''presentVal'') (delegatedOptionalParser p)"
    "sublist (makePropStorage p ''presentVal'') (generalOptionalParser p)"
    unfolding delegatedParser_def delegatedOptionalParser_def generalParser_def
      generalOptionalParser_def delegatedParserBegin_def generalParserBegin_def
      generalParserEnd_def append_assoc
    by (rule sublist_here | rule sublist_skip)+
  have o2: "sublist (makePropStorage p ''presentVal'') (parser (OptionalProp p c))"
    unfolding OptionalProp_def Property.sel
    by (simp add: strategies)
  have o3: "sublist (makePropStorage p ''presentVal'') (optionalParser (OptionalProp p c))"
    unfolding OptionalProp_def Property.sel
    by (simp add: strategies)
  have o4: "sublist (makePropStorage p ''presentVal'') (readFromMlirBytecode (OptionalProp p c))"
    unfolding OptionalProp_def Property.sel
    by (rule sublist_here | rule sublist_skip)+
  have o5: "sublist (makePropStorage p ''presentVal'') (assignToStorage (OptionalProp p c))"
    if "\<not> hasTrivialStorage p"
    unfolding OptionalProp_def Property.sel if_not_P [OF that]
    by (rule sublist_here | rule sublist_skip)+
  from rule a1 a2 a3 a4 o1 o2 o3 o4 o5 show ?thesis
    by blast
qed

theorem makePropStorage_precedence_witness:
  \<open>makePropStorage UnitProp ''elemVal'' = ''bool elemVal = false;'' \<and>
   makePropStorage I32Prop ''presentVal'' = ''int32_t presentVal;'' \<and>
   makePropStorage (DefaultValuedProp StringProp ''"a"'' ''std::string("a")'') ''presentVal''
     = ''std::string presentVal = std::string("a");'' \<and>
   sublist ''std::string presentVal;'' (assignToStorage (OptionalProp StringProp True))\<close>
proof -
  have nontrivial: "\<not> hasTrivialStorage StringProp"
    by (simp add: hasTrivialStorage_def StringProp_fields)
  have plain: "makePropStorage StringProp ''presentVal'' = ''std::string presentVal;''"
    unfolding makePropStorage_def StringProp_def Property_base_def Let_def Property.sel
    by simp
  from nontrivial
    makePropStorage_precedence [of UnitProp "''elemVal''" UnitProp "''''" StringProp True]
    makePropStorage_precedence [of I32Prop "''presentVal''" UnitProp "''''" StringProp True]
    makePropStorage_precedence
      [of \<open>DefaultValuedProp StringProp ''"a"'' ''std::string("a")''\<close> "''presentVal''"
          UnitProp "''''" StringProp True]
  show ?thesis
    by (simp add: plain UnitProp_fields I32Prop_fields StringProp_fields DefaultValuedProp_def)
qed

end
